theory Spec2Isabelle
  imports Complex_Main
begin

section \<open>Host library: the ECMAScript Date algorithms\<close>

text \<open>
  \<^verbatim>\<open>calculateNextBillingDate\<close> in \<^verbatim>\<open>src/lib/subscription.ts\<close> works on a JavaScript
  \<^verbatim>\<open>Date\<close>: it reads \<^verbatim>\<open>getDate\<close>, \<^verbatim>\<open>getMonth\<close>, \<^verbatim>\<open>getFullYear\<close> and writes
  \<^verbatim>\<open>setDate\<close>, \<^verbatim>\<open>setMonth\<close>, \<^verbatim>\<open>setFullYear\<close>. These are the abstract operations of
  the ECMAScript language specification (section "Date Objects"), written out here under
  their names there.

  A time value is an integer: milliseconds since 1970-01-01T00:00:00Z. The time values
  of this development stay inside the range of a \<^verbatim>\<open>Date\<close> (at most 8.64e15 in absolute
  value), so \<^verbatim>\<open>TimeClip\<close> is the identity and no Invalid Date arises.
\<close>

definition msPerDay :: int where
  "msPerDay = 86400000"

definition Day :: "int \<Rightarrow> int" where
  "Day t = t div msPerDay"

definition TimeWithinDay :: "int \<Rightarrow> int" where
  "TimeWithinDay t = t mod msPerDay"

definition DaysInYear :: "int \<Rightarrow> int" where
  "DaysInYear y =
     (if y mod 4 \<noteq> 0 then 365
      else if y mod 100 \<noteq> 0 then 366
      else if y mod 400 \<noteq> 0 then 365
      else 366)"

definition DayFromYear :: "int \<Rightarrow> int" where
  "DayFromYear y =
     365 * (y - 1970) + (y - 1969) div 4 - (y - 1901) div 100 + (y - 1601) div 400"

text \<open>
  \<^verbatim>\<open>YearFromTime(t)\<close> is "the largest integer y such that TimeFromYear(y) \<le> t". It is
  computed by a search downwards from a year that is late enough; lemma
  \<open>YearFromTime_bounds\<close> below shows that the result is that largest year.
\<close>

function year_down :: "int \<Rightarrow> int \<Rightarrow> int" where
  "year_down y d = (if DayFromYear y \<le> d then y else year_down (y - 1) d)"
  by pat_completeness auto
termination
  by (relation "measure (\<lambda>(y, d). nat (DayFromYear y - d))")
     (auto simp: DayFromYear_def)

definition YearFromTime :: "int \<Rightarrow> int" where
  "YearFromTime t =
     (let d = Day t
      in year_down (1971 + (if 0 \<le> d then d div 365 else d div 366)) d)"

definition DayWithinYear :: "int \<Rightarrow> int" where
  "DayWithinYear t = Day t - DayFromYear (YearFromTime t)"

definition InLeapYear :: "int \<Rightarrow> int" where
  "InLeapYear t = (if DaysInYear (YearFromTime t) = 366 then 1 else 0)"

text \<open>
  The number of days of a year before its month \<open>m\<close> (0 = January), with \<open>l\<close> the leap
  flag: the bounds of the table in \<^verbatim>\<open>MonthFromTime\<close>.
\<close>

definition month_start :: "int \<Rightarrow> int \<Rightarrow> int" where
  "month_start m l =
     (if m = 0 then 0
      else if m = 1 then 31
      else if m = 2 then 59 + l
      else if m = 3 then 90 + l
      else if m = 4 then 120 + l
      else if m = 5 then 151 + l
      else if m = 6 then 181 + l
      else if m = 7 then 212 + l
      else if m = 8 then 243 + l
      else if m = 9 then 273 + l
      else if m = 10 then 304 + l
      else 334 + l)"

definition MonthFromTime :: "int \<Rightarrow> int" where
  "MonthFromTime t =
     (let d = DayWithinYear t; l = InLeapYear t
      in if d < 31 then 0
         else if d < 59 + l then 1
         else if d < 90 + l then 2
         else if d < 120 + l then 3
         else if d < 151 + l then 4
         else if d < 181 + l then 5
         else if d < 212 + l then 6
         else if d < 243 + l then 7
         else if d < 273 + l then 8
         else if d < 304 + l then 9
         else if d < 334 + l then 10
         else 11)"

definition DateFromTime :: "int \<Rightarrow> int" where
  "DateFromTime t =
     DayWithinYear t - month_start (MonthFromTime t) (InLeapYear t) + 1"


text \<open>
  \<^verbatim>\<open>MakeDay(year, month, date)\<close>: with \<open>ym = year + floor(month / 12)\<close> and
  \<open>mn = month modulo 12\<close>, the day number of the first of month \<open>mn\<close> of year \<open>ym\<close>, plus
  \<open>date - 1\<close>. A \<open>date\<close> beyond the end of the month is not cut: it counts on into the
  following month.
\<close>

definition MakeDay :: "int \<Rightarrow> int \<Rightarrow> int \<Rightarrow> int" where
  "MakeDay year month date =
     (let ym = year + month div 12;
          mn = month mod 12
      in DayFromYear ym
           + month_start mn (if DaysInYear ym = 366 then 1 else 0)
           + date - 1)"

definition MakeDate :: "int \<Rightarrow> int \<Rightarrow> int" where
  "MakeDate day time = day * msPerDay + time"

text \<open>
  The time zone of the host is its \<^verbatim>\<open>LocalTZA(t, isUTC)\<close>: the offset of local time from
  UTC in milliseconds, at the UTC time \<open>t\<close> when \<open>isUTC\<close> is true and at the local time \<open>t\<close>
  when it is false. The offset may change with \<open>t\<close>, as it does where daylight saving
  time is kept; it is less than a day in absolute value, as the offset of every time zone
  is. \<open>utc_zone\<close> is a host on UTC. \<open>new_york_spring_2025\<close> is a host that is five hours
  behind UTC until 9 March 2025, 07:00 UTC (02:00 local time), and four hours behind from
  then on; a local time of the hour that is skipped is read with the offset before the
  change.
\<close>

typedef zone = "{f :: int \<Rightarrow> bool \<Rightarrow> int. \<forall>t isUTC. \<bar>f t isUTC\<bar> < msPerDay}"
  morphisms LocalTZA Zone
  by (rule exI [of _ "\<lambda>t isUTC. 0"]) (simp add: msPerDay_def)

setup_lifting type_definition_zone

lift_definition utc_zone :: zone is "\<lambda>t isUTC. 0"
  by (simp add: msPerDay_def)


definition LocalTime :: "zone \<Rightarrow> int \<Rightarrow> int" where
  "LocalTime tza t = t + LocalTZA tza t True"

definition UTC :: "zone \<Rightarrow> int \<Rightarrow> int" where
  "UTC tza t = t - LocalTZA tza t False"

text \<open>The methods of \<^verbatim>\<open>Date.prototype\<close>; a setter returns the new time value.\<close>

definition getDate :: "zone \<Rightarrow> int \<Rightarrow> int" where
  "getDate tza tv = DateFromTime (LocalTime tza tv)"

definition getMonth :: "zone \<Rightarrow> int \<Rightarrow> int" where
  "getMonth tza tv = MonthFromTime (LocalTime tza tv)"

definition getFullYear :: "zone \<Rightarrow> int \<Rightarrow> int" where
  "getFullYear tza tv = YearFromTime (LocalTime tza tv)"

definition setDate :: "zone \<Rightarrow> int \<Rightarrow> int \<Rightarrow> int" where
  "setDate tza tv dt =
     (let t = LocalTime tza tv
      in UTC tza (MakeDate (MakeDay (YearFromTime t) (MonthFromTime t) dt)
                           (TimeWithinDay t)))"

definition setMonth :: "zone \<Rightarrow> int \<Rightarrow> int \<Rightarrow> int" where
  "setMonth tza tv m =
     (let t = LocalTime tza tv
      in UTC tza (MakeDate (MakeDay (YearFromTime t) m (DateFromTime t))
                           (TimeWithinDay t)))"

definition setFullYear :: "zone \<Rightarrow> int \<Rightarrow> int \<Rightarrow> int" where
  "setFullYear tza tv y =
     (let t = LocalTime tza tv
      in UTC tza (MakeDate (MakeDay y (MonthFromTime t) (DateFromTime t))
                           (TimeWithinDay t)))"

section \<open>Billing cycles (\<^verbatim>\<open>src/lib/subscription.ts\<close>)\<close>

datatype BillingCycle = Weekly | Monthly | Yearly

text \<open>
  \<^verbatim>\<open>calculateNextBillingDate(fromDate, cycle)\<close>: \<^verbatim>\<open>new Date(fromDate)\<close> copies the time
  value, the \<^verbatim>\<open>switch\<close> moves it, \<^verbatim>\<open>getTime()\<close> returns it.
\<close>

definition calculateNextBillingDate :: "zone \<Rightarrow> int \<Rightarrow> BillingCycle \<Rightarrow> int" where
  "calculateNextBillingDate tza fromDate cycle =
     (let next = fromDate
      in case cycle of
           Weekly \<Rightarrow> setDate tza next (getDate tza next + 7)
         | Monthly \<Rightarrow> setMonth tza next (getMonth tza next + 1)
         | Yearly \<Rightarrow> setFullYear tza next (getFullYear tza next + 1))"

section \<open>Host library: local storage and JSON\<close>

text \<open>
  \<^verbatim>\<open>localStorage\<close> holds one string per key, and this program uses two keys, each with
  one type of value. A stored string is modelled by what \<^verbatim>\<open>JSON.parse\<close> makes of it: the
  empty string (falsy in a condition, and not JSON), another string that is not JSON, or
  the text \<^verbatim>\<open>JSON.stringify\<close> writes for a value. \<^verbatim>\<open>JSON.parse\<close> of that text gives the
  value back (an optional field that is \<^verbatim>\<open>undefined\<close> is left out of the text and is
  \<^verbatim>\<open>undefined\<close> again after parsing). A string that is JSON for a value of another
  shape is outside the model, and the storage calls themselves do not throw.
\<close>

datatype 'a stored = EmptyString | Malformed | Json 'a

datatype exn = SyntaxError

definition JSON_parse :: "'a stored \<Rightarrow> exn + 'a" where
  "JSON_parse s = (case s of EmptyString \<Rightarrow> Inl SyntaxError
                           | Malformed \<Rightarrow> Inl SyntaxError
                           | Json v \<Rightarrow> Inr v)"

definition JSON_stringify :: "'a \<Rightarrow> 'a stored" where
  "JSON_stringify v = Json v"

text \<open>\<^verbatim>\<open>try { body } catch { handler }\<close>\<close>

definition try_catch :: "exn + 'a \<Rightarrow> (exn \<Rightarrow> exn + 'a) \<Rightarrow> exn + 'a" where
  "try_catch body handler = (case body of Inl e \<Rightarrow> handler e | Inr v \<Rightarrow> Inr v)"

text \<open>\<^verbatim>\<open>Array.prototype.findIndex\<close>: the first index whose element satisfies \<open>P\<close>, or -1.\<close>

fun findIndex :: "('a \<Rightarrow> bool) \<Rightarrow> 'a list \<Rightarrow> int" where
  "findIndex P [] = - 1"
| "findIndex P (x # xs) =
     (if P x then 0
      else (let i = findIndex P xs in if i = - 1 then - 1 else i + 1))"

text \<open>A number in a template literal: an integer prints in decimal.\<close>

fun digits :: "nat \<Rightarrow> string" where
  "digits n =
     (if n < 10 then [''0123456789'' ! n]
      else digits (n div 10) @ [''0123456789'' ! (n mod 10)])"

declare digits.simps [simp del]

definition number_toString :: "int \<Rightarrow> string" where
  "number_toString i =
     (if i < 0 then CHR ''-'' # digits (nat (- i)) else digits (nat i))"

section \<open>The data model\<close>

text \<open>
  \<^verbatim>\<open>interface Subscription\<close> of \<^verbatim>\<open>src/lib/subscription.ts\<close>. The field \<^verbatim>\<open>id\<close> is
  \<open>sub_id\<close> here. Timestamps are time values; \<^verbatim>\<open>amount\<close> is a number that is only stored
  and copied; the optional \<^verbatim>\<open>lastPaymentTx\<close> is \<open>None\<close> when \<^verbatim>\<open>undefined\<close>.
\<close>

datatype SubscriptionStatus = Active | Cancelled | Expired

record Subscription =
  sub_id :: string
  planId :: string
  walletAddress :: string
  merchantAddress :: string
  amount :: real
  billingCycle :: BillingCycle
  startDate :: int
  nextBillingDate :: int
  status :: SubscriptionStatus
  lastPaymentTx :: "string option"

text \<open>
  \<^verbatim>\<open>interface SessionData\<close> of \<^verbatim>\<open>src/hooks/use-session.ts\<close>, its fields prefixed with
  \<open>session_\<close>.
\<close>

record SessionData =
  session_connected :: bool
  session_timestamp :: int
  session_walletAddress :: "string option"

text \<open>
  The state the two modules work on: whether \<^verbatim>\<open>typeof window\<close> is not \<^verbatim>\<open>'undefined'\<close>,
  the items of \<^verbatim>\<open>localStorage\<close> under \<^verbatim>\<open>'lazorkit-session'\<close> and
  \<^verbatim>\<open>'lazorkit-subscriptions'\<close> (\<open>None\<close> when \<^verbatim>\<open>getItem\<close> returns \<^verbatim>\<open>null\<close>), and the
  \<^verbatim>\<open>sessionInfo\<close> state of the \<^verbatim>\<open>useSession\<close> hook.
\<close>

record world =
  window_defined :: bool
  session_item :: "SessionData stored option"
  subscriptions_item :: "Subscription list stored option"
  sessionInfo :: "SessionData option"

section \<open>The subscription ledger (\<^verbatim>\<open>src/lib/subscription.ts\<close>)\<close>

definition loadSubscriptions :: "world \<Rightarrow> exn + Subscription list" where
  "loadSubscriptions w =
     (if \<not> window_defined w then Inr []
      else try_catch
             (case subscriptions_item w of
                None \<Rightarrow> Inr []
              | Some EmptyString \<Rightarrow> Inr []
              | Some stored \<Rightarrow> JSON_parse stored)
             (\<lambda>_. Inr []))"

definition saveSubscriptions :: "world \<Rightarrow> Subscription list \<Rightarrow> world" where
  "saveSubscriptions w subscriptions =
     (if \<not> window_defined w then w
      else w\<lparr>subscriptions_item := Some (JSON_stringify subscriptions)\<rparr>)"

text \<open>
  \<^verbatim>\<open>createSubscription\<close> reads the clock once (\<open>now\<close>) and draws the random suffix of the
  id (\<open>rnd\<close>, the value of \<^verbatim>\<open>Math.random().toString(36).slice(2, 9)\<close>). It returns the new
  record and the state after the call.
\<close>

definition createSubscription ::
  "world \<Rightarrow> zone \<Rightarrow> int \<Rightarrow> string \<Rightarrow> string \<Rightarrow> string \<Rightarrow> string \<Rightarrow> real \<Rightarrow> BillingCycle
     \<Rightarrow> string option \<Rightarrow> exn + (Subscription \<times> world)" where
  "createSubscription w tza now rnd planId' walletAddress' merchantAddress' amount'
       billingCycle' paymentTx =
     (let subscription =
            \<lparr>sub_id = ''sub_'' @ number_toString now @ ''_'' @ rnd,
             planId = planId',
             walletAddress = walletAddress',
             merchantAddress = merchantAddress',
             amount = amount',
             billingCycle = billingCycle',
             startDate = now,
             nextBillingDate = calculateNextBillingDate tza now billingCycle',
             status = Active,
             lastPaymentTx = paymentTx\<rparr>
      in case loadSubscriptions w of
           Inl e \<Rightarrow> Inl e
         | Inr subscriptions \<Rightarrow>
             Inr (subscription, saveSubscriptions w (subscriptions @ [subscription])))"

definition cancelSubscription :: "world \<Rightarrow> string \<Rightarrow> exn + (bool \<times> world)" where
  "cancelSubscription w subscriptionId =
     (case loadSubscriptions w of
        Inl e \<Rightarrow> Inl e
      | Inr subscriptions \<Rightarrow>
          (let index = findIndex (\<lambda>sub. sub_id sub = subscriptionId) subscriptions
           in if index = - 1 then Inr (False, w)
              else Inr (True,
                     saveSubscriptions w
                       (subscriptions[nat index :=
                          (subscriptions ! nat index)\<lparr>status := Cancelled\<rparr>]))))"

text \<open>\<^verbatim>\<open>recordPayment\<close> reads the clock once, in \<^verbatim>\<open>new Date()\<close>.\<close>

definition recordPayment ::
  "world \<Rightarrow> zone \<Rightarrow> int \<Rightarrow> string \<Rightarrow> string \<Rightarrow> exn + (Subscription option \<times> world)" where
  "recordPayment w tza now subscriptionId paymentTx =
     (case loadSubscriptions w of
        Inl e \<Rightarrow> Inl e
      | Inr subscriptions \<Rightarrow>
          (let index = findIndex (\<lambda>sub. sub_id sub = subscriptionId) subscriptions
           in if index = - 1 then Inr (None, w)
              else (let subscription =
                          (subscriptions ! nat index)
                            \<lparr>lastPaymentTx := Some paymentTx\<rparr>;
                        subscription =
                          subscription
                            \<lparr>nextBillingDate :=
                               calculateNextBillingDate tza now (billingCycle subscription)\<rparr>
                    in Inr (Some subscription,
                          saveSubscriptions w
                            (subscriptions[nat index := subscription])))))"


text \<open>
  In \<^verbatim>\<open>getDaysUntilBilling\<close> the difference of the two time values is an integer; the
  quotient by the milliseconds of a day is taken in the reals before \<^verbatim>\<open>Math.ceil\<close>.
\<close>

definition getDaysUntilBilling :: "int \<Rightarrow> Subscription \<Rightarrow> int" where
  "getDaysUntilBilling now subscription =
     (let diff = nextBillingDate subscription - now
      in max 0 \<lceil>real_of_int diff / (24 * 60 * 60 * 1000)\<rceil>)"

section \<open>The session record (\<^verbatim>\<open>src/hooks/use-session.ts\<close>)\<close>

text \<open>
  The callbacks of \<^verbatim>\<open>useSession(expiryMs)\<close>. \<open>smartWalletPubkey\<close> is the base-58 text of
  the wallet's key, \<open>None\<close> when the wallet has none; \<open>now\<close> is the reading of
  \<^verbatim>\<open>Date.now()\<close>.
\<close>

definition saveSession :: "world \<Rightarrow> string option \<Rightarrow> int \<Rightarrow> world" where
  "saveSession w smartWalletPubkey now =
     (if \<not> window_defined w then w
      else (let session = \<lparr>session_connected = True,
                           session_timestamp = now,
                           session_walletAddress = smartWalletPubkey\<rparr>
            in case try_catch
                      (Inr (w\<lparr>session_item := Some (JSON_stringify session),
                               sessionInfo := Some session\<rparr>))
                      (\<lambda>error. Inr w) of
                 Inl e \<Rightarrow> w
               | Inr w' \<Rightarrow> w'))"

definition loadSession :: "world \<Rightarrow> exn + SessionData option" where
  "loadSession w =
     (if \<not> window_defined w then Inr None
      else try_catch
             (case session_item w of
                None \<Rightarrow> Inr None
              | Some EmptyString \<Rightarrow> Inr None
              | Some saved \<Rightarrow>
                  (case JSON_parse saved of
                     Inl e \<Rightarrow> Inl e
                   | Inr session \<Rightarrow> Inr (Some session)))
             (\<lambda>_. Inr None))"

definition isValidSession :: "int \<Rightarrow> int \<Rightarrow> SessionData option \<Rightarrow> bool" where
  "isValidSession expiryMs now session =
     (case session of
        None \<Rightarrow> False
      | Some s \<Rightarrow>
          if \<not> session_connected s then False
          else (let age = now - session_timestamp s in age < expiryMs))"

section \<open>Sequences of ledger operations\<close>

text \<open>
  A call of one of the three operations that write the ledger, with what the call reads
  besides its arguments: the clock, and for \<^verbatim>\<open>createSubscription\<close> the random suffix
  of the id. \<open>apply_op\<close> makes the call and keeps the state after it; \<open>run_ops\<close> makes
  a sequence of calls.
\<close>

datatype ledger_op =
    Create int string string string string real BillingCycle "string option"
  | Cancel string
  | RecordPayment int string string

definition apply_op :: "zone \<Rightarrow> world \<Rightarrow> ledger_op \<Rightarrow> world" where
  "apply_op tza w op =
     (case op of
        Create now rnd plan wallet merchant amt cycle paymentTx \<Rightarrow>
          (case createSubscription w tza now rnd plan wallet merchant amt cycle paymentTx of
             Inl e \<Rightarrow> w | Inr (sub, w') \<Rightarrow> w')
      | Cancel subscriptionId \<Rightarrow>
          (case cancelSubscription w subscriptionId of
             Inl e \<Rightarrow> w | Inr (ok, w') \<Rightarrow> w')
      | RecordPayment now subscriptionId paymentTx \<Rightarrow>
          (case recordPayment w tza now subscriptionId paymentTx of
             Inl e \<Rightarrow> w | Inr (sub, w') \<Rightarrow> w'))"

definition run_ops :: "zone \<Rightarrow> world \<Rightarrow> ledger_op list \<Rightarrow> world" where
  "run_ops tza w ops = foldl (apply_op tza) w ops"

text \<open>
  How the ledger \<open>after\<close> some calls relates to the ledger \<open>before\<close> them: the old
  records are at their places under their ids, each with the status it had or
  \<open>cancelled\<close>; the records added are \<open>active\<close> or \<open>cancelled\<close>.
\<close>

definition status_history :: "Subscription list \<Rightarrow> Subscription list \<Rightarrow> bool" where
  "status_history before after \<longleftrightarrow>
     length before \<le> length after
     \<and> (\<forall>i < length before.
           sub_id (after ! i) = sub_id (before ! i)
           \<and> (status (after ! i) = status (before ! i) \<or> status (after ! i) = Cancelled))
     \<and> (\<forall>i < length after. length before \<le> i \<longrightarrow>
           status (after ! i) = Active \<or> status (after ! i) = Cancelled)"

section \<open>Facts about the host operations\<close>

lemma findIndex_ge: "- 1 \<le> findIndex P xs"
  by (induction xs) (auto simp: Let_def)

lemma findIndex_none: "findIndex P xs = - 1 \<longleftrightarrow> (\<forall>x\<in>set xs. \<not> P x)"
proof (induction xs)
  case Nil
  then show ?case by simp
next
  case (Cons x xs)
  have "findIndex P xs + 1 \<noteq> - 1"
    using findIndex_ge [of P xs] by linarith
  with Cons show ?case by (auto simp: Let_def)
qed

lemma findIndex_found:
  "findIndex P xs \<noteq> - 1 \<Longrightarrow>
     0 \<le> findIndex P xs \<and> nat (findIndex P xs) < length xs
     \<and> P (xs ! nat (findIndex P xs))
     \<and> (\<forall>j < nat (findIndex P xs). \<not> P (xs ! j))"
proof (induction xs)
  case Nil
  then show ?case by simp
next
  case (Cons x xs)
  show ?case
  proof (cases "P x")
    case True
    then show ?thesis by simp
  next
    case False
    with Cons.prems have ne: "findIndex P xs \<noteq> - 1"
      by (auto simp: Let_def split: if_splits)
    from Cons.IH [OF ne] have ih: "0 \<le> findIndex P xs" "nat (findIndex P xs) < length xs"
      "P (xs ! nat (findIndex P xs))" "\<forall>j < nat (findIndex P xs). \<not> P (xs ! j)"
      by auto
    have eq: "findIndex P (x # xs) = findIndex P xs + 1"
      using False ne by (simp add: Let_def)
    have n: "nat (findIndex P xs + 1) = Suc (nat (findIndex P xs))"
      using ih(1) by simp
    show ?thesis
      unfolding eq n using ih False
      by (auto simp: nth_Cons split: nat.splits)
  qed
qed

lemma loadSubscriptions_total: "\<exists>l. loadSubscriptions w = Inr l"
  by (auto simp: loadSubscriptions_def try_catch_def JSON_parse_def
           split: option.splits stored.splits)

lemma loadSubscriptions_saveSubscriptions:
  "window_defined w \<Longrightarrow> loadSubscriptions (saveSubscriptions w l) = Inr l"
  by (simp add: loadSubscriptions_def saveSubscriptions_def try_catch_def
        JSON_parse_def JSON_stringify_def)

lemma loadSubscriptions_no_window:
  "\<not> window_defined w \<Longrightarrow> loadSubscriptions w = Inr []"
  by (simp add: loadSubscriptions_def)

section \<open>Facts about the Date algorithms\<close>

















lemma MonthFromTime_range: "0 \<le> MonthFromTime t \<and> MonthFromTime t \<le> 11"
  by (simp add: MonthFromTime_def Let_def)

lemma MakeDay_of_fields:
  "MakeDay (YearFromTime t) (MonthFromTime t) dt = Day t + (dt - DateFromTime t)"
proof -
  have m: "MonthFromTime t div 12 = 0" "MonthFromTime t mod 12 = MonthFromTime t"
    using MonthFromTime_range [of t] by simp_all
  show ?thesis
    unfolding MakeDay_def Let_def m DateFromTime_def DayWithinYear_def InLeapYear_def
    by simp
qed



lemma MakeDate_Day: "MakeDate (Day t + k) (TimeWithinDay t) = t + k * msPerDay"
  by (simp add: MakeDate_def Day_def TimeWithinDay_def algebra_simps)





lemma setDate_plus:
  "setDate tza d (getDate tza d + k)
     = UTC tza (MakeDate (Day (LocalTime tza d) + k) (TimeWithinDay (LocalTime tza d)))"
  unfolding setDate_def getDate_def Let_def MakeDay_of_fields by simp

lemma calculateNextBillingDate_Weekly:
  "calculateNextBillingDate tza d Weekly
     = UTC tza (MakeDate (Day (LocalTime tza d) + 7) (TimeWithinDay (LocalTime tza d)))"
  by (simp add: calculateNextBillingDate_def setDate_plus)




















section \<open>Facts about sequences of operations\<close>

lemma status_history_refl: "status_history l l"
  by (simp add: status_history_def)

lemma status_history_trans:
  assumes "status_history a b" "status_history b c"
  shows "status_history a c"
proof -
  have len: "length a \<le> length b" "length b \<le> length c"
    using assms by (simp_all add: status_history_def)
  have old: "sub_id (c ! i) = sub_id (a ! i)
      \<and> (status (c ! i) = status (a ! i) \<or> status (c ! i) = Cancelled)"
    if "i < length a" for i
  proof -
    from that len have ib: "i < length b" by simp
    from assms(1) that have 1: "sub_id (b ! i) = sub_id (a ! i)"
      "status (b ! i) = status (a ! i) \<or> status (b ! i) = Cancelled"
      by (simp_all add: status_history_def)
    from assms(2) ib have 2: "sub_id (c ! i) = sub_id (b ! i)"
      "status (c ! i) = status (b ! i) \<or> status (c ! i) = Cancelled"
      by (simp_all add: status_history_def)
    from 1 2 show ?thesis by auto
  qed
  have new: "status (c ! i) = Active \<or> status (c ! i) = Cancelled"
    if "i < length c" "length a \<le> i" for i
  proof (cases "i < length b")
    case True
    with assms(1) that have 1: "status (b ! i) = Active \<or> status (b ! i) = Cancelled"
      by (simp add: status_history_def)
    from assms(2) True have "status (c ! i) = status (b ! i) \<or> status (c ! i) = Cancelled"
      by (simp add: status_history_def)
    with 1 show ?thesis by auto
  next
    case False
    with assms(2) that show ?thesis by (simp add: status_history_def)
  qed
  show ?thesis
    unfolding status_history_def using len old new by auto
qed

lemma status_history_update:
  assumes "k < length l" "sub_id r = sub_id (l ! k)"
    and "status r = status (l ! k) \<or> status r = Cancelled"
  shows "status_history l (l[k := r])"
  using assms by (auto simp: status_history_def nth_list_update)

lemma apply_op_history:
  assumes "loadSubscriptions w = Inr l" "loadSubscriptions (apply_op tza w op) = Inr l'"
  shows "status_history l l'"
proof (cases "window_defined w")
  case False
  have "apply_op tza w op = w"
    using False assms(1)
    by (cases op)
       (auto simp: apply_op_def createSubscription_def cancelSubscription_def
          recordPayment_def saveSubscriptions_def Let_def split: sum.splits)
  with assms show ?thesis by (simp add: status_history_refl)
next
  case True
  note ls = loadSubscriptions_saveSubscriptions [OF True]
  show ?thesis
  proof (cases op)
    case (Create now rnd plan wallet merchant amt cycle paymentTx)
    with assms ls have "\<exists>r. l' = l @ [r] \<and> status r = Active"
      by (auto simp: apply_op_def createSubscription_def Let_def)
    then show ?thesis
      by (auto simp: status_history_def nth_append)
  next
    case (Cancel subscriptionId)
    let ?i = "findIndex (\<lambda>sub. sub_id sub = subscriptionId) l"
    show ?thesis
    proof (cases "?i = - 1")
      case True
      with assms Cancel have "l' = l"
        by (simp add: apply_op_def cancelSubscription_def)
      then show ?thesis by (simp add: status_history_refl)
    next
      case False
      with assms Cancel ls
      have "l' = l[nat ?i := (l ! nat ?i)\<lparr>status := Cancelled\<rparr>]"
        by (simp add: apply_op_def cancelSubscription_def Let_def)
      moreover have "nat ?i < length l"
        using findIndex_found [OF False] by simp
      ultimately show ?thesis
        by (simp add: status_history_update)
    qed
  next
    case (RecordPayment now subscriptionId paymentTx)
    let ?i = "findIndex (\<lambda>sub. sub_id sub = subscriptionId) l"
    show ?thesis
    proof (cases "?i = - 1")
      case True
      with assms RecordPayment have "l' = l"
        by (simp add: apply_op_def recordPayment_def)
      then show ?thesis by (simp add: status_history_refl)
    next
      case False
      with assms RecordPayment ls
      have "l' = l[nat ?i := (l ! nat ?i)
                \<lparr>lastPaymentTx := Some paymentTx,
                 nextBillingDate :=
                   calculateNextBillingDate tza now (billingCycle (l ! nat ?i))\<rparr>]"
        by (simp add: apply_op_def recordPayment_def Let_def)
      moreover have "nat ?i < length l"
        using findIndex_found [OF False] by simp
      ultimately show ?thesis
        by (simp add: status_history_update)
    qed
  qed
qed

lemma run_ops_history:
  "loadSubscriptions w = Inr l \<Longrightarrow> loadSubscriptions (run_ops tza w ops) = Inr l'
     \<Longrightarrow> status_history l l'"
proof (induction ops arbitrary: w l)
  case Nil
  then show ?case by (simp add: run_ops_def status_history_refl)
next
  case (Cons op ops)
  obtain m where m: "loadSubscriptions (apply_op tza w op) = Inr m"
    using loadSubscriptions_total by blast
  have 1: "status_history l m"
    using Cons.prems(1) m by (rule apply_op_history)
  have "loadSubscriptions (run_ops tza (apply_op tza w op) ops) = Inr l'"
    using Cons.prems(2) by (simp add: run_ops_def)
  from Cons.IH [OF m this] have 2: "status_history m l'" .
  from 1 2 show ?case by (rule status_history_trans)
qed

section \<open>The claims\<close>

text \<open>
  C2. For a session record with \<open>connected = true\<close>, \<open>isValidSession\<close> is true exactly
  when \<open>now - timestamp < expiryMs\<close>; at the instant \<open>now - timestamp = expiryMs\<close> it is
  false; for an absent record and for one with \<open>connected = false\<close> it is false.
\<close>

theorem isValidSession_iff:
  "(session_connected s \<longrightarrow>
      isValidSession expiryMs now (Some s) = (now - session_timestamp s < expiryMs))
   \<and> (session_connected s \<and> now - session_timestamp s = expiryMs \<longrightarrow>
        \<not> isValidSession expiryMs now (Some s))
   \<and> \<not> isValidSession expiryMs now None
   \<and> (\<not> session_connected s \<longrightarrow> \<not> isValidSession expiryMs now (Some s))"
  by (simp add: isValidSession_def)

theorem isValidSession_iff_witness:
  "isValidSession 86400000 86399999
     (Some \<lparr>session_connected = True, session_timestamp = 0,
            session_walletAddress = Some ''7xKX''\<rparr>)
   \<and> \<not> isValidSession 86400000 86400000
         (Some \<lparr>session_connected = True, session_timestamp = 0,
                session_walletAddress = Some ''7xKX''\<rparr>)
   \<and> \<not> isValidSession 86400000 5
         (Some \<lparr>session_connected = False, session_timestamp = 0,
                session_walletAddress = None\<rparr>)"
  using
    isValidSession_iff [of "\<lparr>session_connected = True, session_timestamp = 0,
                              session_walletAddress = Some ''7xKX''\<rparr>" 86400000 86399999]
    isValidSession_iff [of "\<lparr>session_connected = True, session_timestamp = 0,
                              session_walletAddress = Some ''7xKX''\<rparr>" 86400000 86400000]
    isValidSession_iff [of "\<lparr>session_connected = False, session_timestamp = 0,
                              session_walletAddress = None\<rparr>" 86400000 5]
  by simp

text \<open>
  C4. When no record of the ledger has the id, \<open>cancelSubscription\<close> returns \<open>false\<close> and
  the state after the call is the state before it: nothing is written, so the stored
  ledger is the same.
\<close>

theorem cancelSubscription_unknown_id:
  assumes "loadSubscriptions w = Inr ledger"
    and "\<forall>sub \<in> set ledger. sub_id sub \<noteq> subscriptionId"
  shows "cancelSubscription w subscriptionId = Inr (False, w)"
proof -
  have "findIndex (\<lambda>sub. sub_id sub = subscriptionId) ledger = - 1"
    using assms(2) by (simp add: findIndex_none)
  then show ?thesis
    by (simp add: cancelSubscription_def assms(1))
qed

theorem cancelSubscription_unknown_id_witness:
  "cancelSubscription
     \<lparr>window_defined = True, session_item = None,
      subscriptions_item = Some (Json
        [\<lparr>sub_id = ''sub_1_abc'', planId = ''basic'', walletAddress = ''W'',
          merchantAddress = ''M'', amount = 499 / 100, billingCycle = Monthly,
          startDate = 1, nextBillingDate = 2678400001, status = Active,
          lastPaymentTx = Some ''sig''\<rparr>]),
      sessionInfo = None\<rparr>
     ''sub_2_xyz''
   = Inr (False,
      \<lparr>window_defined = True, session_item = None,
       subscriptions_item = Some (Json
         [\<lparr>sub_id = ''sub_1_abc'', planId = ''basic'', walletAddress = ''W'',
           merchantAddress = ''M'', amount = 499 / 100, billingCycle = Monthly,
           startDate = 1, nextBillingDate = 2678400001, status = Active,
           lastPaymentTx = Some ''sig''\<rparr>]),
       sessionInfo = None\<rparr>)"
  by (rule cancelSubscription_unknown_id
        [where ledger = "[\<lparr>sub_id = ''sub_1_abc'', planId = ''basic'', walletAddress = ''W'',
           merchantAddress = ''M'', amount = 499 / 100, billingCycle = Monthly,
           startDate = 1, nextBillingDate = 2678400001, status = Active,
           lastPaymentTx = Some ''sig''\<rparr>]"])
     (simp_all add: loadSubscriptions_def try_catch_def JSON_parse_def)

text \<open>
  C7. \<open>getDaysUntilBilling\<close> is \<open>max(0, ceil((nextBillingDate - now) / dayMs))\<close> with
  \<open>dayMs\<close> the milliseconds of 24 hours, and it is 0 when \<open>nextBillingDate\<close> is at or
  before the current time.
\<close>

theorem getDaysUntilBilling_formula:
  "getDaysUntilBilling now sub
     = max 0 \<lceil>real_of_int (nextBillingDate sub - now) / real_of_int msPerDay\<rceil>
   \<and> msPerDay = 24 * 60 * 60 * 1000
   \<and> (nextBillingDate sub \<le> now \<longrightarrow> getDaysUntilBilling now sub = 0)"
proof -
  have a: "getDaysUntilBilling now sub
             = max 0 \<lceil>real_of_int (nextBillingDate sub - now) / real_of_int msPerDay\<rceil>"
    by (simp add: getDaysUntilBilling_def msPerDay_def)
  have b: "msPerDay = 24 * 60 * 60 * 1000"
    by (simp add: msPerDay_def)
  have c: "getDaysUntilBilling now sub = 0" if "nextBillingDate sub \<le> now"
  proof -
    have "real_of_int (nextBillingDate sub - now) / real_of_int msPerDay \<le> 0"
      using that by (simp add: msPerDay_def)
    then have "\<lceil>real_of_int (nextBillingDate sub - now) / real_of_int msPerDay\<rceil> \<le> 0"
      by (simp add: ceiling_le_iff)
    then show ?thesis unfolding a by simp
  qed
  show ?thesis using a b c by blast
qed

theorem getDaysUntilBilling_formula_witness:
  "getDaysUntilBilling 1000
     \<lparr>sub_id = ''sub_1_abc'', planId = ''basic'', walletAddress = ''W'',
      merchantAddress = ''M'', amount = 499 / 100, billingCycle = Monthly,
      startDate = 1, nextBillingDate = 172801001, status = Active,
      lastPaymentTx = None\<rparr> = 3
   \<and> getDaysUntilBilling 1000
     \<lparr>sub_id = ''sub_1_abc'', planId = ''basic'', walletAddress = ''W'',
      merchantAddress = ''M'', amount = 499 / 100, billingCycle = Monthly,
      startDate = 1, nextBillingDate = 1000, status = Active,
      lastPaymentTx = None\<rparr> = 0"
  using
    getDaysUntilBilling_formula [of 1000
      "\<lparr>sub_id = ''sub_1_abc'', planId = ''basic'', walletAddress = ''W'',
        merchantAddress = ''M'', amount = 499 / 100, billingCycle = Monthly,
        startDate = 1, nextBillingDate = 172801001, status = Active,
        lastPaymentTx = None\<rparr>"]
    getDaysUntilBilling_formula [of 1000
      "\<lparr>sub_id = ''sub_1_abc'', planId = ''basic'', walletAddress = ''W'',
        merchantAddress = ''M'', amount = 499 / 100, billingCycle = Monthly,
        startDate = 1, nextBillingDate = 1000, status = Active,
        lastPaymentTx = None\<rparr>"]
  by (simp add: msPerDay_def)

text \<open>
  C8. \<open>loadSession\<close> and \<open>loadSubscriptions\<close> never throw, whatever is stored; when the
  stored item is absent or \<open>JSON.parse\<close> rejects it, \<open>loadSession\<close> returns \<open>null\<close> and
  \<open>loadSubscriptions\<close> returns the empty list.
\<close>

theorem load_never_throws:
  "(\<exists>v. loadSession w = Inr v)
   \<and> (\<exists>l. loadSubscriptions w = Inr l)
   \<and> ((session_item w = None \<or> (\<exists>s e. session_item w = Some s \<and> JSON_parse s = Inl e))
        \<longrightarrow> loadSession w = Inr None)
   \<and> ((subscriptions_item w = None
         \<or> (\<exists>s e. subscriptions_item w = Some s \<and> JSON_parse s = Inl e))
        \<longrightarrow> loadSubscriptions w = Inr [])"
  by (auto simp: loadSession_def loadSubscriptions_def try_catch_def JSON_parse_def
           split: option.splits stored.splits)

theorem load_never_throws_witness:
  "JSON_parse (Malformed :: SessionData stored) = Inl SyntaxError
   \<and> loadSession \<lparr>window_defined = True, session_item = Some Malformed,
                  subscriptions_item = None, sessionInfo = None\<rparr> = Inr None
   \<and> loadSubscriptions \<lparr>window_defined = True, session_item = Some Malformed,
                        subscriptions_item = None, sessionInfo = None\<rparr> = Inr []"
  using load_never_throws [of "\<lparr>window_defined = True, session_item = Some Malformed,
                                 subscriptions_item = None, sessionInfo = None\<rparr>"]
  by (simp add: JSON_parse_def)

text \<open>
  C9. In a browser (\<open>window\<close> is defined), \<open>saveSession\<close> for a wallet address writes
  the session item of the storage: the JSON text of the record with \<open>connected = true\<close>,
  the call time and that address. \<open>loadSession\<close> reads that item: in the state after the
  save, and in any state of a browser with the same session item, whatever else the state
  holds, it returns a record with that \<open>walletAddress\<close> and \<open>connected = true\<close>.
\<close>

theorem saveSession_loadSession:
  assumes "window_defined w"
  shows "session_item (saveSession w (Some address) now)
           = Some (JSON_stringify \<lparr>session_connected = True, session_timestamp = now,
                                   session_walletAddress = Some address\<rparr>)
       \<and> (\<exists>s. loadSession (saveSession w (Some address) now) = Inr (Some s)
              \<and> session_walletAddress s = Some address
              \<and> session_connected s = True)
       \<and> (\<forall>w'. window_defined w'
                 \<and> session_item w' = session_item (saveSession w (Some address) now)
              \<longrightarrow> (\<exists>s. loadSession w' = Inr (Some s)
                       \<and> session_walletAddress s = Some address
                       \<and> session_connected s = True))"
proof -
  let ?session = "\<lparr>session_connected = True, session_timestamp = now,
                    session_walletAddress = Some address\<rparr>"
  have item: "session_item (saveSession w (Some address) now)
                = Some (JSON_stringify ?session)"
    using assms by (simp add: saveSession_def try_catch_def Let_def)
  have load: "loadSession w' = Inr (Some ?session)"
    if "window_defined w'" "session_item w' = Some (JSON_stringify ?session)" for w'
    using that by (simp add: loadSession_def try_catch_def JSON_parse_def JSON_stringify_def)
  have win: "window_defined (saveSession w (Some address) now)"
    using assms by (simp add: saveSession_def try_catch_def Let_def)
  show ?thesis
    using item load [OF win item] load by auto
qed

theorem saveSession_loadSession_witness:
  "window_defined \<lparr>window_defined = True, session_item = Some Malformed,
       subscriptions_item = None, sessionInfo = None\<rparr>
   \<and> session_item
        (saveSession \<lparr>window_defined = True, session_item = Some Malformed,
       subscriptions_item = None, sessionInfo = None\<rparr>
           (Some ''7xKXtg2CW87d97TXJSDpbD5jBkheTqA83TZRuJosgAsU'') 1700000000000)
      = Some (Json \<lparr>session_connected = True, session_timestamp = 1700000000000,
           session_walletAddress = Some ''7xKXtg2CW87d97TXJSDpbD5jBkheTqA83TZRuJosgAsU''\<rparr>)
   \<and> (\<exists>s. loadSession \<lparr>window_defined = True,
          session_item = Some (Json \<lparr>session_connected = True, session_timestamp = 1700000000000,
           session_walletAddress = Some ''7xKXtg2CW87d97TXJSDpbD5jBkheTqA83TZRuJosgAsU''\<rparr>),
          subscriptions_item = Some Malformed, sessionInfo = None\<rparr> = Inr (Some s)
         \<and> session_walletAddress s = Some ''7xKXtg2CW87d97TXJSDpbD5jBkheTqA83TZRuJosgAsU''
         \<and> session_connected s = True)"
proof -
  let ?w = "\<lparr>window_defined = True, session_item = Some Malformed,
       subscriptions_item = None, sessionInfo = None\<rparr>"
  let ?w' = "\<lparr>window_defined = True,
          session_item = Some (Json \<lparr>session_connected = True, session_timestamp = 1700000000000,
           session_walletAddress = Some ''7xKXtg2CW87d97TXJSDpbD5jBkheTqA83TZRuJosgAsU''\<rparr>),
          subscriptions_item = Some Malformed, sessionInfo = None\<rparr>"
  have h: "window_defined ?w" by simp
  note t = saveSession_loadSession
             [OF h, of "''7xKXtg2CW87d97TXJSDpbD5jBkheTqA83TZRuJosgAsU''" 1700000000000]
  from t have item: "session_item
        (saveSession ?w (Some ''7xKXtg2CW87d97TXJSDpbD5jBkheTqA83TZRuJosgAsU'') 1700000000000)
      = Some (Json \<lparr>session_connected = True, session_timestamp = 1700000000000,
           session_walletAddress = Some ''7xKXtg2CW87d97TXJSDpbD5jBkheTqA83TZRuJosgAsU''\<rparr>)"
    by (simp add: JSON_stringify_def)
  have same: "window_defined ?w'
      \<and> session_item ?w' = session_item
        (saveSession ?w (Some ''7xKXtg2CW87d97TXJSDpbD5jBkheTqA83TZRuJosgAsU'') 1700000000000)"
    using item by simp
  from t same have "\<exists>s. loadSession ?w' = Inr (Some s)
         \<and> session_walletAddress s = Some ''7xKXtg2CW87d97TXJSDpbD5jBkheTqA83TZRuJosgAsU''
         \<and> session_connected s = True"
    by blast
  with h item show ?thesis by blast
qed





text \<open>
  C10. With \<open>ledger\<close> what \<open>loadSubscriptions\<close> returns: if a record has the id,
  \<open>cancelSubscription\<close> returns \<open>true\<close> and the stored ledger afterwards has the same
  length and order; every record but the first one with that id is the same, and that one
  has \<open>status = cancelled\<close> and every other field as before. The session item is not
  touched.
\<close>

theorem cancelSubscription_frame:
  assumes "loadSubscriptions w = Inr ledger"
    and "\<exists>sub \<in> set ledger. sub_id sub = subscriptionId"
  shows "\<exists>k w' ledger'.
           cancelSubscription w subscriptionId = Inr (True, w')
         \<and> loadSubscriptions w' = Inr ledger'
         \<and> k < length ledger
         \<and> sub_id (ledger ! k) = subscriptionId
         \<and> (\<forall>j < k. sub_id (ledger ! j) \<noteq> subscriptionId)
         \<and> length ledger' = length ledger
         \<and> (\<forall>j < length ledger. j \<noteq> k \<longrightarrow> ledger' ! j = ledger ! j)
         \<and> status (ledger' ! k) = Cancelled
         \<and> sub_id (ledger' ! k) = sub_id (ledger ! k)
         \<and> planId (ledger' ! k) = planId (ledger ! k)
         \<and> walletAddress (ledger' ! k) = walletAddress (ledger ! k)
         \<and> merchantAddress (ledger' ! k) = merchantAddress (ledger ! k)
         \<and> amount (ledger' ! k) = amount (ledger ! k)
         \<and> billingCycle (ledger' ! k) = billingCycle (ledger ! k)
         \<and> startDate (ledger' ! k) = startDate (ledger ! k)
         \<and> nextBillingDate (ledger' ! k) = nextBillingDate (ledger ! k)
         \<and> lastPaymentTx (ledger' ! k) = lastPaymentTx (ledger ! k)
         \<and> session_item w' = session_item w
         \<and> sessionInfo w' = sessionInfo w
         \<and> window_defined w' = window_defined w"
proof -
  let ?P = "\<lambda>sub. sub_id sub = subscriptionId"
  let ?i = "findIndex ?P ledger"
  let ?k = "nat ?i"
  let ?ledger' = "ledger[?k := (ledger ! ?k)\<lparr>status := Cancelled\<rparr>]"
  let ?w' = "saveSubscriptions w ?ledger'"
  have win: "window_defined w"
    using assms loadSubscriptions_no_window [of w] by (cases "window_defined w") auto
  have ne: "?i \<noteq> - 1"
    using assms(2) by (simp add: findIndex_none)
  from findIndex_found [OF ne]
  have k: "?k < length ledger" "sub_id (ledger ! ?k) = subscriptionId"
    "\<forall>j < ?k. sub_id (ledger ! j) \<noteq> subscriptionId"
    by auto
  have res: "cancelSubscription w subscriptionId = Inr (True, ?w')"
    using ne by (simp add: cancelSubscription_def assms(1) Let_def)
  have ld: "loadSubscriptions ?w' = Inr ?ledger'"
    using win by (rule loadSubscriptions_saveSubscriptions)
  have rest: "session_item ?w' = session_item w" "sessionInfo ?w' = sessionInfo w"
    "window_defined ?w' = window_defined w"
    by (simp_all add: saveSubscriptions_def)
  have other: "\<forall>j < length ledger. j \<noteq> ?k \<longrightarrow> ?ledger' ! j = ledger ! j"
    by simp
  have at_k: "?ledger' ! ?k = (ledger ! ?k)\<lparr>status := Cancelled\<rparr>"
    using k(1) by simp
  show ?thesis
    apply (rule exI [of _ ?k], rule exI [of _ ?w'], rule exI [of _ ?ledger'])
    unfolding at_k using res ld k rest other by simp
qed

theorem cancelSubscription_frame_witness:
  "loadSubscriptions
      \<lparr>window_defined = True, session_item = None,
        subscriptions_item = Some (Json [\<lparr>sub_id = ''sub_1_abc'', planId = ''basic'', walletAddress = ''W'',
          merchantAddress = ''M'', amount = 499 / 100, billingCycle = Weekly,
          startDate = 1, nextBillingDate = 604800001, status = Active,
          lastPaymentTx = Some ''sig''\<rparr>]),
        sessionInfo = None\<rparr> = Inr [\<lparr>sub_id = ''sub_1_abc'', planId = ''basic'', walletAddress = ''W'',
          merchantAddress = ''M'', amount = 499 / 100, billingCycle = Weekly,
          startDate = 1, nextBillingDate = 604800001, status = Active,
          lastPaymentTx = Some ''sig''\<rparr>]
   \<and> (\<exists>w' ledger'. cancelSubscription
          \<lparr>window_defined = True, session_item = None,
        subscriptions_item = Some (Json [\<lparr>sub_id = ''sub_1_abc'', planId = ''basic'', walletAddress = ''W'',
          merchantAddress = ''M'', amount = 499 / 100, billingCycle = Weekly,
          startDate = 1, nextBillingDate = 604800001, status = Active,
          lastPaymentTx = Some ''sig''\<rparr>]),
        sessionInfo = None\<rparr> ''sub_1_abc'' = Inr (True, w')
        \<and> loadSubscriptions w' = Inr ledger'
        \<and> length ledger' = 1
        \<and> status (ledger' ! 0) = Cancelled
        \<and> nextBillingDate (ledger' ! 0) = 604800001
        \<and> lastPaymentTx (ledger' ! 0) = Some ''sig'')"
proof -
  let ?r = "\<lparr>sub_id = ''sub_1_abc'', planId = ''basic'', walletAddress = ''W'',
          merchantAddress = ''M'', amount = 499 / 100, billingCycle = Weekly,
          startDate = 1, nextBillingDate = 604800001, status = Active,
          lastPaymentTx = Some ''sig''\<rparr>"
  let ?w = "\<lparr>window_defined = True, session_item = None,
        subscriptions_item = Some (Json [\<lparr>sub_id = ''sub_1_abc'', planId = ''basic'', walletAddress = ''W'',
          merchantAddress = ''M'', amount = 499 / 100, billingCycle = Weekly,
          startDate = 1, nextBillingDate = 604800001, status = Active,
          lastPaymentTx = Some ''sig''\<rparr>]),
        sessionInfo = None\<rparr>"
  have h1: "loadSubscriptions ?w = Inr [?r]"
    by (simp add: loadSubscriptions_def try_catch_def JSON_parse_def)
  have h2: "\<exists>sub \<in> set [?r]. sub_id sub = ''sub_1_abc''"
    by simp
  from cancelSubscription_frame [OF h1 h2]
  obtain k w' ledger' where
    "cancelSubscription ?w ''sub_1_abc'' = Inr (True, w')"
    "loadSubscriptions w' = Inr ledger'" "k < length [?r]"
    "length ledger' = length [?r]" "status (ledger' ! k) = Cancelled"
    "nextBillingDate (ledger' ! k) = nextBillingDate ([?r] ! k)"
    "lastPaymentTx (ledger' ! k) = lastPaymentTx ([?r] ! k)"
    by auto
  then have "\<exists>w' ledger'. cancelSubscription ?w ''sub_1_abc'' = Inr (True, w')
        \<and> loadSubscriptions w' = Inr ledger'
        \<and> length ledger' = 1
        \<and> status (ledger' ! 0) = Cancelled
        \<and> nextBillingDate (ledger' ! 0) = 604800001
        \<and> lastPaymentTx (ledger' ! 0) = Some ''sig''"
    by auto
  then show ?thesis using h1 by blast
qed

text \<open>
  C1, as amended. Over any sequence of \<open>createSubscription\<close>, \<open>cancelSubscription\<close> and
  \<open>recordPayment\<close> calls, every record of the ledger stays at its place under its id, and
  its status afterwards is the status it had or \<open>cancelled\<close>: \<open>active\<close> goes only to
  \<open>cancelled\<close>, and \<open>cancelled\<close> is never left. A record added by the calls is \<open>active\<close>
  or \<open>cancelled\<close>; no call sets \<open>expired\<close>.
\<close>

theorem status_transitions:
  assumes "loadSubscriptions w = Inr before"
    and "loadSubscriptions (run_ops tza w ops) = Inr after"
  shows "length before \<le> length after
       \<and> (\<forall>i < length before.
             sub_id (after ! i) = sub_id (before ! i)
             \<and> (status (after ! i) = status (before ! i) \<or> status (after ! i) = Cancelled))
       \<and> (\<forall>i < length after. length before \<le> i \<longrightarrow>
             status (after ! i) = Active \<or> status (after ! i) = Cancelled)"
  using run_ops_history [OF assms] by (simp add: status_history_def)

theorem status_transitions_witness:
  "loadSubscriptions
      \<lparr>window_defined = True, session_item = None,
        subscriptions_item = Some (Json [\<lparr>sub_id = ''sub_1_abc'', planId = ''basic'', walletAddress = ''W'',
          merchantAddress = ''M'', amount = 499 / 100, billingCycle = Weekly,
          startDate = 1, nextBillingDate = 604800001, status = Active,
          lastPaymentTx = Some ''sig''\<rparr>]),
        sessionInfo = None\<rparr> = Inr [\<lparr>sub_id = ''sub_1_abc'', planId = ''basic'', walletAddress = ''W'',
          merchantAddress = ''M'', amount = 499 / 100, billingCycle = Weekly,
          startDate = 1, nextBillingDate = 604800001, status = Active,
          lastPaymentTx = Some ''sig''\<rparr>]
   \<and> loadSubscriptions
       (run_ops utc_zone
          \<lparr>window_defined = True, session_item = None,
        subscriptions_item = Some (Json [\<lparr>sub_id = ''sub_1_abc'', planId = ''basic'', walletAddress = ''W'',
          merchantAddress = ''M'', amount = 499 / 100, billingCycle = Weekly,
          startDate = 1, nextBillingDate = 604800001, status = Active,
          lastPaymentTx = Some ''sig''\<rparr>]),
        sessionInfo = None\<rparr>
          [Cancel ''sub_1_abc'',
           Create 2 ''xyz'' ''pro'' ''W'' ''M'' (1999 / 100) Weekly (Some ''sig2'')])
     = Inr [\<lparr>sub_id = ''sub_1_abc'', planId = ''basic'', walletAddress = ''W'',
          merchantAddress = ''M'', amount = 499 / 100, billingCycle = Weekly,
          startDate = 1, nextBillingDate = 604800001, status = Cancelled,
          lastPaymentTx = Some ''sig''\<rparr>,
         \<lparr>sub_id = ''sub_2_xyz'', planId = ''pro'', walletAddress = ''W'',
          merchantAddress = ''M'', amount = 1999 / 100, billingCycle = Weekly,
          startDate = 2, nextBillingDate = 604800002, status = Active,
          lastPaymentTx = Some ''sig2''\<rparr>]
   \<and> status \<lparr>sub_id = ''sub_1_abc'', planId = ''basic'', walletAddress = ''W'',
          merchantAddress = ''M'', amount = 499 / 100, billingCycle = Weekly,
          startDate = 1, nextBillingDate = 604800001, status = Active,
          lastPaymentTx = Some ''sig''\<rparr> = Active
   \<and> status \<lparr>sub_id = ''sub_1_abc'', planId = ''basic'', walletAddress = ''W'',
          merchantAddress = ''M'', amount = 499 / 100, billingCycle = Weekly,
          startDate = 1, nextBillingDate = 604800001, status = Cancelled,
          lastPaymentTx = Some ''sig''\<rparr> = Cancelled"
proof -
  let ?w = "\<lparr>window_defined = True, session_item = None,
        subscriptions_item = Some (Json [\<lparr>sub_id = ''sub_1_abc'', planId = ''basic'', walletAddress = ''W'',
          merchantAddress = ''M'', amount = 499 / 100, billingCycle = Weekly,
          startDate = 1, nextBillingDate = 604800001, status = Active,
          lastPaymentTx = Some ''sig''\<rparr>]),
        sessionInfo = None\<rparr>"
  have h1: "loadSubscriptions ?w = Inr [\<lparr>sub_id = ''sub_1_abc'', planId = ''basic'', walletAddress = ''W'',
          merchantAddress = ''M'', amount = 499 / 100, billingCycle = Weekly,
          startDate = 1, nextBillingDate = 604800001, status = Active,
          lastPaymentTx = Some ''sig''\<rparr>]"
    by (simp add: loadSubscriptions_def try_catch_def JSON_parse_def)
  have h2: "loadSubscriptions
       (run_ops utc_zone ?w
          [Cancel ''sub_1_abc'',
           Create 2 ''xyz'' ''pro'' ''W'' ''M'' (1999 / 100) Weekly (Some ''sig2'')])
     = Inr [\<lparr>sub_id = ''sub_1_abc'', planId = ''basic'', walletAddress = ''W'',
          merchantAddress = ''M'', amount = 499 / 100, billingCycle = Weekly,
          startDate = 1, nextBillingDate = 604800001, status = Cancelled,
          lastPaymentTx = Some ''sig''\<rparr>,
         \<lparr>sub_id = ''sub_2_xyz'', planId = ''pro'', walletAddress = ''W'',
          merchantAddress = ''M'', amount = 1999 / 100, billingCycle = Weekly,
          startDate = 2, nextBillingDate = 604800002, status = Active,
          lastPaymentTx = Some ''sig2''\<rparr>]"
    by (simp add: run_ops_def apply_op_def cancelSubscription_def createSubscription_def
          loadSubscriptions_def saveSubscriptions_def try_catch_def JSON_parse_def
          JSON_stringify_def Let_def number_toString_def digits.simps
          calculateNextBillingDate_Weekly MakeDate_Day UTC_def LocalTime_def
          utc_zone.rep_eq msPerDay_def)
  show ?thesis
    using status_transitions [OF h1 h2] h1 h2 by simp
qed

text \<open>
  C1 as stated fails: \<open>cancelSubscription\<close> does not look at the status, so it takes a
  record out of \<open>expired\<close>.
\<close>

theorem status_transitions_counterexample:
  "cancelSubscription
     \<lparr>window_defined = True, session_item = None,
        subscriptions_item = Some (Json [\<lparr>sub_id = ''sub_1_abc'', planId = ''basic'', walletAddress = ''W'',
          merchantAddress = ''M'', amount = 499 / 100, billingCycle = Weekly,
          startDate = 1, nextBillingDate = 604800001, status = Expired,
          lastPaymentTx = Some ''sig''\<rparr>]),
        sessionInfo = None\<rparr>
     ''sub_1_abc''
   = Inr (True,
       \<lparr>window_defined = True, session_item = None,
        subscriptions_item = Some (Json [\<lparr>sub_id = ''sub_1_abc'', planId = ''basic'', walletAddress = ''W'',
          merchantAddress = ''M'', amount = 499 / 100, billingCycle = Weekly,
          startDate = 1, nextBillingDate = 604800001, status = Cancelled,
          lastPaymentTx = Some ''sig''\<rparr>]),
        sessionInfo = None\<rparr>)"
  by (simp add: cancelSubscription_def loadSubscriptions_def saveSubscriptions_def
        try_catch_def JSON_parse_def JSON_stringify_def Let_def)




end
